theory Spec2Isabelle
  imports Main
begin

section \<open>The Zodipus query engine\<close>

text \<open>
  The engine is the function \<open>createRegistry\<close> of \<open>queryEngine.ts\<close> (in the sources at
  hand it is the second part of \<open>packages/zodipus/src/generated/custom-schemas.ts\<close>,
  lines 27 to 472). From a registry of model schemas and a map of relation metadata it
  builds, per model and per query object, a Prisma query (\<open>{select: ...}\<close> or
  \<open>{include: ...}\<close>) and four parsers for what Prisma returns (\<open>parse\<close>, \<open>safeParse\<close>,
  \<open>array().parse\<close>, \<open>array().safeParse\<close>).

  Conventions of the embedding.
  \<^item> JavaScript values are the datatype \<open>jsval\<close>. An object is the list of its own
    properties in property order; an array is the list of its elements. Values are
    trees: two places of the input never hold one and the same object.
  \<^item> On a raw item, \<open>key in item\<close> and \<open>item[key]\<close> are read on own properties: the
    names of relations are taken not to be names of members that objects and arrays
    inherit (\<open>toString\<close>, \<open>length\<close>, ...).
  \<^item> The registry \<open>config.models\<close> is a plain object, and \<open>config.models[name]\<close>
    follows the prototype chain: for a name with no entry of its own that names a member
    of \<open>Object.prototype\<close> the lookup yields that member, which is truthy and has no
    \<open>parse\<close> (\<open>models_at\<close>). For the relation maps such a member has no \<open>type\<close>, so
    the lookups of lines 315 to 319 skip the turn exactly as for a missing entry; they
    are read as own-key maps.
  \<^item> A query object is the list of its entries, as \<open>Object.entries\<close> gives them; its
    values are \<open>jsval\<close>s too (\<open>true\<close>, \<open>{select: ...}\<close>, \<open>{include: ...}\<close>).
  \<^item> A thrown exception is the \<open>Inl\<close> branch of a sum.
  \<^item> The parser writes relation values into \<open>result\<close>, and \<open>result\<close> may be the very
    object it was handed (\<open>result = item\<close>, line 298). The raw item is therefore state:
    every parser returns its outcome paired with the raw input as it is after the call.
  \<^item> A Zod schema is used through \<open>schema.parse\<close> alone: a function from a value to
    an exception or a parsed value. The schema either hands back the object it was given
    or builds an object of its own (the code casts the outcome to a record, line 308).
\<close>

subsection \<open>Values\<close>

datatype jsval =
    JUndefined
  | JNull
  | JBool bool
  | JNum int
  | JStr string
  | JArr "jsval list"
  | JObj "(string \<times> jsval) list"

type_synonym props = "(string \<times> jsval) list"

text \<open>\<open>typeof v\<close>.\<close>

fun typeof :: "jsval \<Rightarrow> string" where
  "typeof JUndefined = ''undefined''"
| "typeof JNull = ''object''"
| "typeof (JBool b) = ''boolean''"
| "typeof (JNum n) = ''number''"
| "typeof (JStr s) = ''string''"
| "typeof (JArr xs) = ''object''"
| "typeof (JObj ps) = ''object''"

text \<open>Truthiness, as \<open>if (v)\<close>, \<open>!v\<close> and \<open>a && b\<close> test it.\<close>

fun truthy :: "jsval \<Rightarrow> bool" where
  "truthy JUndefined = False"
| "truthy JNull = False"
| "truthy (JBool b) = b"
| "truthy (JNum n) = (n \<noteq> 0)"
| "truthy (JStr s) = (s \<noteq> [])"
| "truthy (JArr xs) = True"
| "truthy (JObj ps) = True"

text \<open>\<open>key in o\<close>, \<open>o[key]\<close> and \<open>o[key] = v\<close> on a property list. An assignment
  to an existing key keeps the key's place; a new key goes to the end.\<close>

definition has_key :: "string \<Rightarrow> props \<Rightarrow> bool" where
  "has_key k ps = (k \<in> set (map fst ps))"

definition lookup :: "props \<Rightarrow> string \<Rightarrow> jsval" where
  "lookup ps k = (case map_of ps k of None \<Rightarrow> JUndefined | Some v \<Rightarrow> v)"

fun set_prop :: "string \<Rightarrow> jsval \<Rightarrow> props \<Rightarrow> props" where
  "set_prop k v [] = [(k, v)]"
| "set_prop k v (p # ps) = (if fst p = k then (k, v) # ps else p # set_prop k v ps)"

fun in_op :: "string \<Rightarrow> jsval \<Rightarrow> bool" where
  "in_op k (JObj ps) = has_key k ps"
| "in_op k v = False"

fun get_prop :: "jsval \<Rightarrow> string \<Rightarrow> jsval" where
  "get_prop (JObj ps) k = lookup ps k"
| "get_prop v k = JUndefined"

fun put_prop :: "string \<Rightarrow> jsval \<Rightarrow> jsval \<Rightarrow> jsval" where
  "put_prop k v (JObj ps) = JObj (set_prop k v ps)"
| "put_prop k v x = x"

text \<open>\<open>Object.fromEntries\<close>: the entries are assigned one after the other.\<close>

definition fromEntries :: "props \<Rightarrow> props" where
  "fromEntries es = foldl (\<lambda>obj (k, v). set_prop k v obj) [] es"

text \<open>The own enumerable properties an object spread \<open>{...v}\<close> copies; a boolean, a
  number, \<open>null\<close> and \<open>undefined\<close> contribute none. (\<open>select\<close> is typed as an object:
  a string or an array there is outside \<open>SelectQuery\<close> and outside the model.)\<close>

fun spread :: "jsval \<Rightarrow> props" where
  "spread (JObj ps) = ps"
| "spread v = []"

text \<open>\<open>{...a, ...b}\<close>.\<close>

definition merge_props :: "props \<Rightarrow> props \<Rightarrow> props" where
  "merge_props a b = foldl (\<lambda>obj (k, v). set_prop k v obj) (fromEntries a) b"

subsection \<open>Errors\<close>

text \<open>
  \<open>ZodipusValidationError\<close> is thrown by the engine with three messages and contexts:
  \<open>InvalidData model received\<close> (line 284), \<open>ModelSchemaNotFound model\<close> (line 303)
  and \<open>RelationSchemaNotFound model field path\<close> (lines 337 and 358). A schema throws
  what it likes: \<open>SchemaError\<close>, a \<open>ZodError\<close> in practice, or a value that is no
  \<open>Error\<close> at all (\<open>NonError s\<close>, with \<open>s\<close> what \<open>String\<close> makes of it).
  \<open>array().parse\<close> on something without \<open>map\<close> is a \<open>TypeError\<close>, and so is
  \<open>.parse(...)\<close> on an inherited member found in the registry in place of a schema.
  \<open>WrappedError s\<close> is \<open>new Error(String(error))\<close>.
\<close>

datatype error =
    InvalidData string string
  | ModelSchemaNotFound string
  | RelationSchemaNotFound string string "string list"
  | SchemaError string
  | NonError string
  | TypeError
  | WrappedError string

text \<open>\<open>error instanceof Error ? error : new Error(String(error))\<close>.\<close>

fun boxed :: "error \<Rightarrow> error" where
  "boxed (NonError s) = WrappedError s"
| "boxed e = e"

subsection \<open>Configuration: ModelRegistry and ModelRelations\<close>

datatype parsed = SameValue | NewObject props

type_synonym schema = "jsval \<Rightarrow> error + parsed"

text \<open>The value \<open>schema.parse(v)\<close> evaluates to.\<close>

fun parsed_value :: "parsed \<Rightarrow> jsval \<Rightarrow> jsval" where
  "parsed_value SameValue v = v"
| "parsed_value (NewObject ps) v = JObj ps"

datatype RelationConfig =
  RelationConfig (rel_type: string) (isArray: bool)
    (rel_relations: "(string \<times> RelationConfig) list option")

record config =
  models :: "string \<rightharpoonup> schema"
  relations :: "string \<rightharpoonup> (string \<rightharpoonup> RelationConfig)"

text \<open>The own property names of \<open>Object.prototype\<close>: what every plain object inherits.\<close>

definition object_prototype_members :: "string list" where
  "object_prototype_members =
     [''constructor'', ''__defineGetter__'', ''__defineSetter__'', ''hasOwnProperty'',
      ''__lookupGetter__'', ''__lookupSetter__'', ''isPrototypeOf'',
      ''propertyIsEnumerable'', ''toString'', ''valueOf'', ''__proto__'',
      ''toLocaleString'']"

text \<open>\<open>config.models[name]\<close>: the schema registered under the name, or else the
  inherited member of that name, or else \<open>undefined\<close>.\<close>

datatype registry_member = OwnSchema schema | PrototypeMember | NoMember

definition models_at :: "config \<Rightarrow> string \<Rightarrow> registry_member" where
  "models_at cfg name =
     (case models cfg name of
        Some s \<Rightarrow> OwnSchema s
      | None \<Rightarrow> if name \<in> set object_prototype_members then PrototypeMember else NoMember)"

subsection \<open>The Prisma query object\<close>

text \<open>Lines 382 to 417: \<open>relationEntries\<close>, \<open>hasSelect\<close>, \<open>hasRelations\<close>, the four
  branches that fill \<open>selectQuery\<close> and \<open>includeQuery\<close>, and the \<open>query\<close> field.\<close>

definition relationEntries :: "props \<Rightarrow> props" where
  "relationEntries query = fromEntries (filter (\<lambda>(key, value). key \<noteq> ''select'') query)"

definition hasSelect :: "props \<Rightarrow> bool" where
  "hasSelect query = (has_key ''select'' query \<and> truthy (lookup query ''select''))"

definition hasRelations :: "props \<Rightarrow> bool" where
  "hasRelations query = (length (map fst (relationEntries query)) > 0)"

text \<open>\<open>query.select ?? {}\<close>.\<close>

definition select_or_empty :: "props \<Rightarrow> jsval" where
  "select_or_empty query =
     (let s = lookup query ''select'' in if s = JNull \<or> s = JUndefined then JObj [] else s)"

definition selectQuery :: "props \<Rightarrow> jsval" where
  "selectQuery query =
     (if hasSelect query \<and> hasRelations query
        then JObj (merge_props (spread (select_or_empty query)) (relationEntries query))
      else if hasSelect query \<and> \<not> hasRelations query
        then select_or_empty query
      else JObj [])"

definition includeQuery :: "props \<Rightarrow> jsval" where
  "includeQuery query =
     (if hasSelect query \<and> hasRelations query then JObj []
      else if hasSelect query \<and> \<not> hasRelations query then JObj []
      else if \<not> hasSelect query \<and> hasRelations query then JObj (relationEntries query)
      else JObj [])"

text \<open>The \<open>query\<close> field of the executor.\<close>

definition buildQuery :: "props \<Rightarrow> jsval" where
  "buildQuery query =
     (if hasSelect query then JObj [(''select'', selectQuery query)]
      else JObj [(''include'', includeQuery query)])"

subsection \<open>parseRelations\<close>

text \<open>Lines 281 to 371. \<open>relationHasSelectOrInclude\<close> is the test of lines 322 to 325.\<close>

definition relationHasSelectOrInclude :: "jsval \<Rightarrow> bool" where
  "relationHasSelectOrInclude v =
     (typeof v = ''object'' \<and> v \<noteq> JNull \<and> (in_op ''select'' v \<or> in_op ''include'' v))"

text \<open>The callback of the relation's \<open>map\<close>, on one element.\<close>

definition parseRelationElement ::
  "config \<Rightarrow> string \<Rightarrow> string \<Rightarrow> string \<Rightarrow> bool \<Rightarrow> jsval \<Rightarrow> error + jsval" where
  "parseRelationElement cfg model key relationType rhsi rel =
     (if rhsi then Inr rel
      else case models_at cfg relationType of
             NoMember \<Rightarrow> Inl (RelationSchemaNotFound relationType key [model, key])
           | PrototypeMember \<Rightarrow> Inl TypeError
           | OwnSchema relationSchema \<Rightarrow>
               (case relationSchema rel of
                  Inl e \<Rightarrow> Inl e
                | Inr p \<Rightarrow> Inr (parsed_value p rel)))"

text \<open>\<open>Array.prototype.map\<close> with a callback that may throw: left to right, the first
  exception ends it.\<close>

fun map_throwing :: "('a \<Rightarrow> error + 'b) \<Rightarrow> 'a list \<Rightarrow> error + 'b list" where
  "map_throwing f [] = Inr []"
| "map_throwing f (x # xs) =
     (case f x of
        Inl e \<Rightarrow> Inl e
      | Inr y \<Rightarrow> (case map_throwing f xs of Inl e \<Rightarrow> Inl e | Inr ys \<Rightarrow> Inr (y # ys)))"

text \<open>Where \<open>result\<close> lives: it is the raw item itself, or an object of the schema's.\<close>

datatype result_ref = ItemItself | Own props

type_synonym pstate = "jsval \<times> result_ref"

text \<open>\<open>result[key] = v\<close>.\<close>

fun assign :: "string \<Rightarrow> jsval \<Rightarrow> pstate \<Rightarrow> pstate" where
  "assign key v (item, ItemItself) = (put_prop key v item, ItemItself)"
| "assign key v (item, Own ps) = (item, Own (set_prop key v ps))"

fun result_value :: "pstate \<Rightarrow> jsval" where
  "result_value (item, ItemItself) = item"
| "result_value (item, Own ps) = JObj ps"

text \<open>One turn of the loop \<open>for (const [key, value] of Object.entries(query))\<close>.\<close>

definition parseEntry ::
  "config \<Rightarrow> string \<Rightarrow> string \<times> jsval \<Rightarrow> pstate \<Rightarrow> error + pstate" where
  "parseEntry cfg model entry st =
     (let key = fst entry; value = snd entry; item = fst st in
      if key = ''select'' then Inr st
      else if \<not> in_op key item then Inr st
      else case relations cfg model of
        None \<Rightarrow> Inr st
      | Some modelRelations \<Rightarrow>
          (case modelRelations key of
             None \<Rightarrow> Inr st
           | Some rc \<Rightarrow>
               let relationType = rel_type rc in
               if relationType = [] then Inr st
               else
                 let rhsi = relationHasSelectOrInclude value;
                     relData = get_prop item key
                 in (case relData of
                       JArr rels \<Rightarrow>
                         (case map_throwing
                                 (parseRelationElement cfg model key relationType rhsi) rels of
                            Inl e \<Rightarrow> Inl e
                          | Inr vs \<Rightarrow> Inr (assign key (JArr vs) st))
                     | _ \<Rightarrow>
                         if relData = JNull then Inr (assign key JNull st)
                         else if rhsi then Inr (assign key relData st)
                         else (case models_at cfg relationType of
                                 NoMember \<Rightarrow>
                                   Inl (RelationSchemaNotFound relationType key [model, key])
                               | PrototypeMember \<Rightarrow> Inl TypeError
                               | OwnSchema relationSchema \<Rightarrow>
                                   (case relationSchema relData of
                                      Inl e \<Rightarrow> Inl e
                                    | Inr p \<Rightarrow>
                                        Inr (assign key (parsed_value p relData) st))))))"

text \<open>The whole loop, then \<open>return result\<close>. An exception leaves the raw item as the
  turns before it made it.\<close>

fun parseEntries ::
  "config \<Rightarrow> string \<Rightarrow> props \<Rightarrow> pstate \<Rightarrow> (error + jsval) \<times> jsval" where
  "parseEntries cfg model [] st = (Inr (result_value st), fst st)"
| "parseEntries cfg model (entry # rest) st =
     (case parseEntry cfg model entry st of
        Inl e \<Rightarrow> (Inl e, fst st)
      | Inr st' \<Rightarrow> parseEntries cfg model rest st')"

definition parseRelations ::
  "config \<Rightarrow> string \<Rightarrow> props \<Rightarrow> jsval \<Rightarrow> (error + jsval) \<times> jsval" where
  "parseRelations cfg model query item =
     (if typeof item \<noteq> ''object'' \<or> item = JNull
        then (Inl (InvalidData model (if item = JNull then ''null'' else typeof item)), item)
      else if hasSelect query
        then parseEntries cfg model query (item, ItemItself)
      else case models_at cfg model of
        NoMember \<Rightarrow> (Inl (ModelSchemaNotFound model), item)
      | PrototypeMember \<Rightarrow> (Inl TypeError, item)
      | OwnSchema modelSchema \<Rightarrow>
          (case modelSchema item of
             Inl e \<Rightarrow> (Inl e, item)
           | Inr SameValue \<Rightarrow> parseEntries cfg model query (item, ItemItself)
           | Inr (NewObject ps) \<Rightarrow> parseEntries cfg model query (item, Own ps)))"

subsection \<open>createParser and the executor\<close>

text \<open>\<open>arrayData.map(parseRelations)\<close>: the outcomes, and the elements as the calls
  left them. After an exception the later elements are as they were.\<close>

fun parseItems ::
  "config \<Rightarrow> string \<Rightarrow> props \<Rightarrow> jsval list \<Rightarrow> (error + jsval list) \<times> jsval list" where
  "parseItems cfg model query [] = (Inr [], [])"
| "parseItems cfg model query (item # rest) =
     (case parseRelations cfg model query item of
        (Inl e, item') \<Rightarrow> (Inl e, item' # rest)
      | (Inr v, item') \<Rightarrow>
          (case parseItems cfg model query rest of
             (Inl e, rest') \<Rightarrow> (Inl e, item' # rest')
           | (Inr vs, rest') \<Rightarrow> (Inr (v # vs), item' # rest')))"

definition createParser ::
  "config \<Rightarrow> string \<Rightarrow> props \<Rightarrow> bool \<Rightarrow> jsval \<Rightarrow> (error + jsval) \<times> jsval" where
  "createParser cfg model query isArr data =
     (if isArr then
        (case data of
           JArr arrayData \<Rightarrow>
             (case parseItems cfg model query arrayData of
                (Inl e, after) \<Rightarrow> (Inl e, JArr after)
              | (Inr vs, after) \<Rightarrow> (Inr (JArr vs), JArr after))
         | _ \<Rightarrow> (Inl TypeError, data))
      else parseRelations cfg model query data)"

datatype SafeParseResult = Success jsval | Failure error

text \<open>The \<open>try\<close>/\<open>catch\<close> of \<open>safeParse\<close> and of \<open>array().safeParse\<close>.\<close>

definition try_catch :: "(error + jsval) \<times> jsval \<Rightarrow> SafeParseResult \<times> jsval" where
  "try_catch r =
     (case r of
        (Inr v, after) \<Rightarrow> (Success v, after)
      | (Inl e, after) \<Rightarrow> (Failure (boxed e), after))"

record QueryExecutor =
  query :: jsval
  parse :: "jsval \<Rightarrow> (error + jsval) \<times> jsval"
  safeParse :: "jsval \<Rightarrow> SafeParseResult \<times> jsval"
  array_parse :: "jsval \<Rightarrow> (error + jsval) \<times> jsval"
  array_safeParse :: "jsval \<Rightarrow> SafeParseResult \<times> jsval"

text \<open>\<open>createRegistry(config).createQuery(model)\<close>: the builder, from a query object
  to its executor. The call has no \<open>throw\<close>: it is \<open>Inr\<close> always.\<close>

definition createQuery :: "config \<Rightarrow> string \<Rightarrow> error + (props \<Rightarrow> QueryExecutor)" where
  "createQuery cfg model =
     Inr (\<lambda>q. \<lparr> query = buildQuery q,
                parse = createParser cfg model q False,
                safeParse = (\<lambda>data. try_catch (createParser cfg model q False data)),
                array_parse = createParser cfg model q True,
                array_safeParse = (\<lambda>data. try_catch (createParser cfg model q True data)) \<rparr>)"

text \<open>The builder that \<open>createQuery\<close> returned (the call has returned, by
  \<open>createQuery_def\<close>).\<close>

definition builder :: "config \<Rightarrow> string \<Rightarrow> props \<Rightarrow> QueryExecutor" where
  "builder cfg model = projr (createQuery cfg model)"

subsection \<open>A registry to run the engine on\<close>

text \<open>
  Three models in the manner of the test suite's: \<open>user\<close> with the relations
  \<open>posts\<close> (a list of \<open>post\<close>) and \<open>profile\<close> (one \<open>profile\<close>, optional). The
  schemas do what a \<open>z.object\<close> does: they demand a field and build an object of the
  fields they know, dropping the others.
\<close>

definition user_schema :: schema where
  "user_schema v =
     (case v of
        JObj ps \<Rightarrow> if has_key ''id'' ps then Inr (NewObject [(''id'', lookup ps ''id'')])
                   else Inl (SchemaError ''user.id: Required'')
      | _ \<Rightarrow> Inl (SchemaError ''user: Expected object''))"

definition post_schema :: schema where
  "post_schema v =
     (case v of
        JObj ps \<Rightarrow> if has_key ''title'' ps then Inr (NewObject [(''title'', lookup ps ''title'')])
                   else Inl (SchemaError ''post.title: Required'')
      | _ \<Rightarrow> Inl (SchemaError ''post: Expected object''))"

definition profile_schema :: schema where
  "profile_schema v =
     (case v of
        JObj ps \<Rightarrow> if has_key ''bio'' ps then Inr (NewObject [(''bio'', lookup ps ''bio'')])
                   else Inl (SchemaError ''profile.bio: Required'')
      | _ \<Rightarrow> Inl (SchemaError ''profile: Expected object''))"

definition user_relations :: "string \<rightharpoonup> RelationConfig" where
  "user_relations =
     [''posts'' \<mapsto> RelationConfig ''post'' True None,
      ''profile'' \<mapsto> RelationConfig ''profile'' False None]"

definition blog :: config where
  "blog = \<lparr> models = [''user'' \<mapsto> user_schema, ''post'' \<mapsto> post_schema,
                          ''profile'' \<mapsto> profile_schema],
            relations = [''user'' \<mapsto> user_relations] \<rparr>"

text \<open>A registry that knows no model at all.\<close>

definition empty_registry :: config where
  "empty_registry = \<lparr> models = Map.empty, relations = Map.empty \<rparr>"

section \<open>Properties\<close>

subsection \<open>Property lists\<close>

lemma has_key_Nil [simp]: "\<not> has_key k []"
  by (simp add: has_key_def)

lemma has_key_Cons [simp]: "has_key k (p # ps) = (fst p = k \<or> has_key k ps)"
  by (auto simp: has_key_def)

lemma has_keyI: "(k, v) \<in> set ps \<Longrightarrow> has_key k ps"
  by (force simp: has_key_def)

lemma has_key_map_of: "has_key k ps = (map_of ps k \<noteq> None)"
  by (induction ps) (auto simp: has_key_def)

lemma lookup_Nil [simp]: "lookup [] k = JUndefined"
  by (simp add: lookup_def)

lemma lookup_Cons [simp]: "lookup (p # ps) k = (if fst p = k then snd p else lookup ps k)"
  by (cases p) (auto simp: lookup_def)

lemma has_key_set_prop [simp]: "has_key k (set_prop k' v ps) = (k = k' \<or> has_key k ps)"
  by (induction ps) auto

lemma lookup_set_prop [simp]:
  "lookup (set_prop k' v ps) k = (if k = k' then v else lookup ps k)"
  by (induction ps) auto

lemma set_prop_idem: "has_key k ps \<Longrightarrow> set_prop k (lookup ps k) ps = ps"
  by (induction ps) auto

lemma set_prop_fresh: "\<not> has_key k ps \<Longrightarrow> set_prop k v ps = ps @ [(k, v)]"
  by (induction ps) auto

lemma lookup_foldl_set_prop:
  "lookup (foldl (\<lambda>obj (k, v). set_prop k v obj) acc es) k =
     (case map_of (rev es) k of None \<Rightarrow> lookup acc k | Some v \<Rightarrow> v)"
  by (induction es arbitrary: acc) (auto split: option.splits)

lemma has_key_foldl_set_prop:
  "has_key k (foldl (\<lambda>obj (k, v). set_prop k v obj) acc es) =
     (has_key k acc \<or> k \<in> fst ` set es)"
  by (induction es arbitrary: acc) (auto simp: image_iff)

lemma map_of_rev_distinct: "distinct (map fst es) \<Longrightarrow> map_of (rev es) = map_of es"
  by (rule ext) (metis distinct_rev map_of_inject_set rev_map set_rev distinct_rev)

text \<open>On an object (keys pairwise different) \<open>Object.fromEntries(Object.entries(o))\<close>
  is a copy of \<open>o\<close>.\<close>

lemma foldl_set_prop_distinct:
  "distinct (map fst (acc @ es)) \<Longrightarrow>
     foldl (\<lambda>obj (k, v). set_prop k v obj) acc es = acc @ es"
proof (induction es arbitrary: acc)
  case Nil
  then show ?case by simp
next
  case (Cons e es)
  obtain k v where e: "e = (k, v)" by (cases e)
  from Cons.prems have fresh: "\<not> has_key k acc" by (auto simp: e has_key_def)
  from Cons.prems have "distinct (map fst ((acc @ [(k, v)]) @ es))" by (simp add: e)
  from Cons.IH [OF this] show ?case by (simp add: e set_prop_fresh [OF fresh])
qed

lemma fromEntries_distinct: "distinct (map fst es) \<Longrightarrow> fromEntries es = es"
  unfolding fromEntries_def using foldl_set_prop_distinct [of "[]" es] by simp

lemma relationEntries_distinct:
  "distinct (map fst q) \<Longrightarrow>
     relationEntries q = filter (\<lambda>(key, value). key \<noteq> ''select'') q"
  unfolding relationEntries_def by (rule fromEntries_distinct) (simp add: distinct_map_filter)

lemma has_key_relationEntries:
  "has_key k (relationEntries q) = (k \<noteq> ''select'' \<and> has_key k q)"
  unfolding relationEntries_def fromEntries_def has_key_foldl_set_prop
  by (force simp: has_key_def image_iff)

lemma hasRelations_iff: "hasRelations q = (\<exists>k. k \<noteq> ''select'' \<and> has_key k q)"
proof -
  have "hasRelations q = (relationEntries q \<noteq> [])" by (simp add: hasRelations_def)
  also have "\<dots> = (\<exists>k. has_key k (relationEntries q))"
    by (cases "relationEntries q") (auto simp: has_key_def)
  finally show ?thesis by (simp add: has_key_relationEntries)
qed

lemma query_builder [simp]: "query (builder cfg model q) = buildQuery q"
  by (simp add: builder_def createQuery_def)

lemma parse_builder [simp]: "parse (builder cfg model q) = createParser cfg model q False"
  by (simp add: builder_def createQuery_def)

lemma array_parse_builder [simp]:
  "array_parse (builder cfg model q) = createParser cfg model q True"
  by (simp add: builder_def createQuery_def)

lemma safeParse_builder [simp]:
  "safeParse (builder cfg model q) data = try_catch (createParser cfg model q False data)"
  by (simp add: builder_def createQuery_def)

lemma array_safeParse_builder [simp]:
  "array_safeParse (builder cfg model q) data = try_catch (createParser cfg model q True data)"
  by (simp add: builder_def createQuery_def)

subsection \<open>The loop over the query's entries\<close>

lemma models_at_Some [simp]: "models cfg name = Some s \<Longrightarrow> models_at cfg name = OwnSchema s"
  by (simp add: models_at_def)

lemma models_at_None:
  "models cfg name = None \<Longrightarrow>
     models_at cfg name
       = (if name \<in> set object_prototype_members then PrototypeMember else NoMember)"
  by (simp add: models_at_def)

lemma models_at_OwnSchema_D: "models_at cfg name = OwnSchema s \<Longrightarrow> models cfg name = Some s"
  by (auto simp: models_at_def split: option.splits if_splits)


lemma parseEntry_no_relations:
  "relations cfg model = None \<Longrightarrow> parseEntry cfg model e st = Inr st"
  by (simp add: parseEntry_def Let_def)

lemma parseEntries_no_relations:
  "relations cfg model = None \<Longrightarrow>
     parseEntries cfg model q st = (Inr (result_value st), fst st)"
  by (induction q) (simp_all add: parseEntry_no_relations)

subsection \<open>createQuery\<close>

text \<open>
  C1 (amended). \<open>createQuery(model)\<close> fails for no model name: it returns the builder
  whatever the registry holds. A name with no entry in the \<open>models\<close> map is reported
  lazily, by \<open>parse\<close> on an object when the query has no \<open>select\<close>: as
  \<open>Model schema not found\<close>, or, when the name is that of a member every object
  inherits (\<open>constructor\<close>, \<open>toString\<close>, ...), as the \<open>TypeError\<close> of calling
  \<open>parse\<close> on that member. A name absent from the \<open>relations\<close> map is never
  reported: with a \<open>select\<close> in the query, \<open>parse\<close> hands the object back.
\<close>

theorem createQuery_never_fails:
  "\<not> isl (createQuery cfg model)
   \<and> (models cfg model = None \<longrightarrow> model \<notin> set object_prototype_members \<longrightarrow>
        \<not> hasSelect q \<longrightarrow> typeof item = ''object'' \<longrightarrow> item \<noteq> JNull \<longrightarrow>
          parse (builder cfg model q) item = (Inl (ModelSchemaNotFound model), item))
   \<and> (models cfg model = None \<longrightarrow> model \<in> set object_prototype_members \<longrightarrow>
        \<not> hasSelect q \<longrightarrow> typeof item = ''object'' \<longrightarrow> item \<noteq> JNull \<longrightarrow>
          parse (builder cfg model q) item = (Inl TypeError, item))
   \<and> (relations cfg model = None \<longrightarrow> hasSelect q \<longrightarrow>
        typeof item = ''object'' \<longrightarrow> item \<noteq> JNull \<longrightarrow>
          parse (builder cfg model q) item = (Inr item, item))"
  by (simp add: createQuery_def createParser_def parseRelations_def
        parseEntries_no_relations models_at_None)

theorem createQuery_never_fails_witness:
  "models empty_registry ''ghost'' = None \<and> ''ghost'' \<notin> set object_prototype_members
   \<and> \<not> hasSelect [] \<and> typeof (JObj []) = ''object'' \<and> JObj [] \<noteq> JNull
   \<and> parse (builder empty_registry ''ghost'' []) (JObj [])
       = (Inl (ModelSchemaNotFound ''ghost''), JObj [])
   \<and> models empty_registry ''constructor'' = None
   \<and> ''constructor'' \<in> set object_prototype_members
   \<and> parse (builder empty_registry ''constructor'' []) (JObj [])
       = (Inl TypeError, JObj [])
   \<and> relations empty_registry ''ghost'' = None \<and> hasSelect [(''select'', JObj [])]
   \<and> parse (builder empty_registry ''ghost'' [(''select'', JObj [])]) (JObj [])
       = (Inr (JObj []), JObj [])"
  using createQuery_never_fails [of empty_registry "''ghost''" "[]" "JObj []"]
        createQuery_never_fails [of empty_registry "''constructor''" "[]" "JObj []"]
        createQuery_never_fails [of empty_registry "''ghost''" "[(''select'', JObj [])]" "JObj []"]
  by (simp add: empty_registry_def hasSelect_def object_prototype_members_def)

text \<open>
  C1 as stated fails: on a registry with no model at all, \<open>createQuery('ghost')\<close>
  returns; the missing schema shows at \<open>parse\<close>, and with a \<open>select\<close> not even there.
\<close>

theorem createQuery_eager_counterexample:
  "\<not> isl (createQuery empty_registry ''ghost'')
   \<and> fst (parse (builder empty_registry ''ghost'' []) (JObj []))
       = Inl (ModelSchemaNotFound ''ghost'')
   \<and> fst (parse (builder empty_registry ''ghost'' [(''select'', JObj [])]) (JObj []))
       = Inr (JObj [])"
  by (simp add: createQuery_def createParser_def parseRelations_def
        parseEntry_def hasSelect_def empty_registry_def models_at_def
        object_prototype_members_def)

subsection \<open>The compiled query\<close>

text \<open>
  C3 (amended). The compiled query carries exactly one of the tags \<open>select\<close> and
  \<open>include\<close>, and it is \<open>select\<close> if and only if the query object has a truthy
  \<open>select\<close> property: any object there, the empty one included, gives \<open>select\<close>. A
  query with neither fields nor relations compiles to \<open>{include: {}}\<close>.
\<close>

theorem buildQuery_tag:
  "(in_op ''select'' (query (builder cfg model q))
      \<longleftrightarrow> \<not> in_op ''include'' (query (builder cfg model q)))
   \<and> (in_op ''select'' (query (builder cfg model q))
      \<longleftrightarrow> has_key ''select'' q \<and> truthy (lookup q ''select''))
   \<and> (map_of q ''select'' = Some (JObj fs) \<longrightarrow>
        query (builder cfg model q) = JObj [(''select'', selectQuery q)])
   \<and> query (builder cfg model []) = JObj [(''include'', JObj [])]"
  by (auto simp: buildQuery_def hasSelect_def has_key_map_of lookup_def includeQuery_def
        hasRelations_def relationEntries_def fromEntries_def)

theorem buildQuery_tag_witness:
  "map_of [(''select'', JObj [])] ''select'' = Some (JObj [])
   \<and> query (builder blog ''user'' [(''select'', JObj [])])
       = JObj [(''select'', selectQuery [(''select'', JObj [])])]"
  using buildQuery_tag [of blog "''user''" "[(''select'', JObj [])]" "[]"] by simp

text \<open>
  C3 as stated fails twice: the query \<open>{}\<close> compiles to the \<open>include\<close> form, and the
  empty field set \<open>{select: {}}\<close> compiles to the \<open>select\<close> form.
\<close>

theorem buildQuery_tag_counterexample:
  "query (builder blog ''user'' []) = JObj [(''include'', JObj [])]
   \<and> query (builder blog ''user'' [(''select'', JObj [])]) = JObj [(''select'', JObj [])]"
  by (simp add: buildQuery_def hasSelect_def hasRelations_def relationEntries_def
        fromEntries_def includeQuery_def selectQuery_def select_or_empty_def)

text \<open>
  C4 (amended). The compiled query keeps every entry of the query object other than
  \<open>select\<close>, under its own name and with its value as written, whatever the relation
  metadata says: the compiler never reads the metadata, so a name unknown to it, or a
  nesting deeper than it goes, is passed on to Prisma.
\<close>

theorem buildQuery_keeps_entries:
  assumes "distinct (map fst q)" and "(key, v) \<in> set q" and "key \<noteq> ''select''"
  shows "get_prop (get_prop (query (builder cfg model q))
                     (if hasSelect q then ''select'' else ''include'')) key = v"
proof -
  let ?es = "filter (\<lambda>(key, value). key \<noteq> ''select'') q"
  have hr: "hasRelations q"
    using assms(2,3) unfolding hasRelations_iff by (auto intro: has_keyI)
  have re: "relationEntries q = ?es" by (rule relationEntries_distinct [OF assms(1)])
  have d: "distinct (map fst ?es)" using assms(1) by (simp add: distinct_map_filter)
  have "(key, v) \<in> set ?es" using assms by simp
  with d have m: "map_of ?es key = Some v" by simp
  have m': "map_of (rev ?es) key = Some v"
    using m map_of_rev_distinct [OF d] by simp
  have l: "lookup ?es key = v" unfolding lookup_def by (simp only: m option.case)
  show ?thesis
  proof (cases "hasSelect q")
    case True
    then show ?thesis
      unfolding query_builder buildQuery_def selectQuery_def merge_props_def re
      using hr m' by (simp add: lookup_foldl_set_prop re del: map_of_eq_Some_iff)
  next
    case False
    then show ?thesis
      unfolding query_builder buildQuery_def includeQuery_def re
      using hr l by (simp add: re)
  qed
qed

theorem buildQuery_keeps_entries_witness:
  "distinct (map fst [(''select'', JObj [(''id'', JBool True)]), (''bogus'', JBool True)])
   \<and> (''bogus'', JBool True) \<in> set [(''select'', JObj [(''id'', JBool True)]), (''bogus'', JBool True)]
   \<and> ''bogus'' \<noteq> ''select''
   \<and> get_prop (get_prop
        (query (builder blog ''user'' [(''select'', JObj [(''id'', JBool True)]), (''bogus'', JBool True)]))
        ''select'') ''bogus'' = JBool True"
  using buildQuery_keeps_entries
          [of "[(''select'', JObj [(''id'', JBool True)]), (''bogus'', JBool True)]"
              "''bogus''" "JBool True" blog "''user''"]
  by (simp add: hasSelect_def)

text \<open>
  C4 as stated fails: \<open>user\<close> has no relation \<open>bogus\<close>, and the compiled query holds
  \<open>bogus: true\<close>; the metadata of \<open>posts\<close> stops at \<open>posts\<close> (no nested relations),
  and the compiled query holds the two levels written below it.
\<close>

theorem buildQuery_unknown_relation_counterexample:
  "user_relations ''bogus'' = None
   \<and> query (builder blog ''user'' [(''bogus'', JBool True)])
       = JObj [(''include'', JObj [(''bogus'', JBool True)])]
   \<and> map_option rel_relations (user_relations ''posts'') = Some None
   \<and> query (builder blog ''user''
        [(''posts'', JObj [(''include'', JObj [(''comments'', JObj [(''include'',
            JObj [(''replies'', JBool True)])])])])])
       = JObj [(''include'', JObj [(''posts'', JObj [(''include'',
            JObj [(''comments'', JObj [(''include'', JObj [(''replies'', JBool True)])])])])])]"
  by (simp add: user_relations_def buildQuery_def hasSelect_def hasRelations_def
        relationEntries_def fromEntries_def includeQuery_def)

subsection \<open>safeParse\<close>

text \<open>
  C8. \<open>safeParse\<close> and \<open>array().safeParse\<close> return a value where \<open>parse\<close> and
  \<open>array().parse\<close> return or throw (their result type has no exception): it is
  \<open>{success: true, data}\<close> with the data \<open>parse\<close> returns exactly when \<open>parse\<close>
  returns, and \<open>{success: false, error}\<close> with the error thrown (boxed into an \<open>Error\<close>
  when it is none) exactly when \<open>parse\<close> throws; a failure carries no data.
\<close>

theorem safeParse_boxes_parse:
  "fst (safeParse (builder cfg model q) data)
     = (case fst (parse (builder cfg model q) data) of
          Inr v \<Rightarrow> Success v | Inl e \<Rightarrow> Failure (boxed e))
   \<and> fst (array_safeParse (builder cfg model q) data)
     = (case fst (array_parse (builder cfg model q) data) of
          Inr v \<Rightarrow> Success v | Inl e \<Rightarrow> Failure (boxed e))
   \<and> (fst (safeParse (builder cfg model q) data) = Success v
        \<longleftrightarrow> fst (parse (builder cfg model q) data) = Inr v)
   \<and> (fst (array_safeParse (builder cfg model q) data) = Success v
        \<longleftrightarrow> fst (array_parse (builder cfg model q) data) = Inr v)
   \<and> ((\<exists>e. fst (safeParse (builder cfg model q) data) = Failure e)
        \<longleftrightarrow> (\<exists>e. fst (parse (builder cfg model q) data) = Inl e))
   \<and> ((\<exists>e. fst (array_safeParse (builder cfg model q) data) = Failure e)
        \<longleftrightarrow> (\<exists>e. fst (array_parse (builder cfg model q) data) = Inl e))"
  by (auto simp: try_catch_def split: prod.splits sum.splits)

lemma in_op_JObj: "in_op k item \<Longrightarrow> \<exists>ps. item = JObj ps \<and> has_key k ps"
  by (cases item) auto

lemma map_throwing_id [simp]: "map_throwing (\<lambda>x. Inr x) xs = Inr xs"
  by (induction xs) auto

lemma map_throwing_Inr_D:
  "map_throwing f xs = Inr ys \<Longrightarrow> list_all2 (\<lambda>x y. f x = Inr y) xs ys"
  by (induction xs arbitrary: ys) (auto split: sum.splits)

lemma map_throwing_Inr_I:
  "list_all2 (\<lambda>x y. f x = Inr y) xs ys \<Longrightarrow> map_throwing f xs = Inr ys"
  by (induction rule: list_all2_induct) auto

lemma map_throwing_Inr_iff:
  "map_throwing f xs = Inr ys \<longleftrightarrow> list_all2 (\<lambda>x y. f x = Inr y) xs ys"
  by (blast intro: map_throwing_Inr_I map_throwing_Inr_D)

lemma parseRelationElement_keep [simp]:
  "parseRelationElement cfg model key t True = (\<lambda>rel. Inr rel)"
  by (rule ext) (simp add: parseRelationElement_def)

lemma parseEntry_skip:
  "key = ''select'' \<or> \<not> in_op key (fst st) \<or> relations cfg model = None
     \<or> (\<exists>mr. relations cfg model = Some mr
            \<and> (mr key = None \<or> (\<exists>rc. mr key = Some rc \<and> rel_type rc = []))) \<Longrightarrow>
   parseEntry cfg model (key, value) st = Inr st"
  by (auto simp: parseEntry_def Let_def)

lemma parseEntry_relation:
  assumes "key \<noteq> ''select''" "in_op key (fst st)" "relations cfg model = Some mr"
    "mr key = Some rc" "rel_type rc \<noteq> []"
  shows "parseEntry cfg model (key, value) st =
    (case get_prop (fst st) key of
       JArr rels \<Rightarrow>
         (case map_throwing (parseRelationElement cfg model key (rel_type rc)
                               (relationHasSelectOrInclude value)) rels of
            Inl e \<Rightarrow> Inl e
          | Inr vs \<Rightarrow> Inr (assign key (JArr vs) st))
     | _ \<Rightarrow>
         if get_prop (fst st) key = JNull then Inr (assign key JNull st)
         else if relationHasSelectOrInclude value then Inr (assign key (get_prop (fst st) key) st)
         else (case models_at cfg (rel_type rc) of
                 NoMember \<Rightarrow> Inl (RelationSchemaNotFound (rel_type rc) key [model, key])
               | PrototypeMember \<Rightarrow> Inl TypeError
               | OwnSchema relationSchema \<Rightarrow>
                   (case relationSchema (get_prop (fst st) key) of
                      Inl e \<Rightarrow> Inl e
                    | Inr p \<Rightarrow> Inr (assign key (parsed_value p (get_prop (fst st) key)) st))))"
  using assms by (simp add: parseEntry_def Let_def)

lemma parseEntry_cases:
  assumes "parseEntry cfg model e st = Inr st'"
  shows "st' = st \<or> (in_op (fst e) (fst st) \<and> (\<exists>v. st' = assign (fst e) v st))"
proof (cases "in_op (fst e) (fst st)")
  case False
  then show ?thesis using assms by (auto simp: parseEntry_def Let_def split: if_splits)
next
  case True
  then show ?thesis using assms
    by (auto simp: parseEntry_def Let_def split: if_splits option.splits jsval.splits sum.splits registry_member.splits)
qed


lemma has_key_append [simp]: "has_key k (xs @ ys) = (has_key k xs \<or> has_key k ys)"
  by (auto simp: has_key_def)

lemma lookup_append: "lookup (xs @ ys) k = (if has_key k xs then lookup xs k else lookup ys k)"
  by (induction xs) auto

lemma hasSelect_drop:
  "key \<noteq> ''select'' \<Longrightarrow> hasSelect (pre @ (key, v) # post) = hasSelect (pre @ post)"
  by (simp add: hasSelect_def lookup_append)

lemma parseEntries_drop:
  assumes "\<And>st. parseEntry cfg model e st = Inr st"
  shows "parseEntries cfg model (pre @ e # post) st = parseEntries cfg model (pre @ post) st"
  by (induction pre arbitrary: st) (simp_all add: assms split: sum.splits)

lemma parseItems_cong:
  assumes "\<And>item. parseRelations cfg1 model q1 item = parseRelations cfg2 model q2 item"
  shows "parseItems cfg1 model q1 xs = parseItems cfg2 model q2 xs"
  by (induction xs) (simp_all add: assms split: prod.splits sum.splits)

lemma createParser_cong:
  assumes "\<And>item. parseRelations cfg1 model q1 item = parseRelations cfg2 model q2 item"
  shows "createParser cfg1 model q1 isArr data = createParser cfg2 model q2 isArr data"
  by (simp add: createParser_def assms parseItems_cong [OF assms] split: jsval.splits)

subsection \<open>Relation names the metadata does not know\<close>

text \<open>
  C10. A key of the query that the model's relation metadata does not hold (or a model
  with no metadata at all) is a no-op for every parser: its turn of the loop leaves the
  state as it is, raising nothing and calling no schema, and \<open>parse\<close>, \<open>safeParse\<close>,
  \<open>array().parse\<close> and \<open>array().safeParse\<close> behave as for the query without that key.
\<close>

theorem unknown_relation_is_noop:
  assumes "key \<noteq> ''select''"
    and "case relations cfg model of None \<Rightarrow> True | Some mr \<Rightarrow> mr key = None"
  shows "parseEntry cfg model (key, spec) st = Inr st
    \<and> parse (builder cfg model (pre @ (key, spec) # post)) data
        = parse (builder cfg model (pre @ post)) data
    \<and> safeParse (builder cfg model (pre @ (key, spec) # post)) data
        = safeParse (builder cfg model (pre @ post)) data
    \<and> array_parse (builder cfg model (pre @ (key, spec) # post)) data
        = array_parse (builder cfg model (pre @ post)) data
    \<and> array_safeParse (builder cfg model (pre @ (key, spec) # post)) data
        = array_safeParse (builder cfg model (pre @ post)) data"
proof -
  have skip: "parseEntry cfg model (key, spec) st = Inr st" for st
    using assms(2) by (intro parseEntry_skip) (auto split: option.splits)
  have "parseRelations cfg model (pre @ (key, spec) # post) item
          = parseRelations cfg model (pre @ post) item" for item
    unfolding parseRelations_def hasSelect_drop [OF assms(1)]
    by (simp add: parseEntries_drop [of cfg model "(key, spec)", OF skip]
          split: option.splits sum.splits parsed.splits registry_member.splits)
  then have "createParser cfg model (pre @ (key, spec) # post) isArr data
          = createParser cfg model (pre @ post) isArr data" for isArr
    by (rule createParser_cong)
  with skip show ?thesis by simp
qed

theorem unknown_relation_is_noop_witness:
  "''bogus'' \<noteq> ''select''
   \<and> (case relations blog ''user'' of None \<Rightarrow> True | Some mr \<Rightarrow> mr ''bogus'' = None)
   \<and> parse (builder blog ''user'' [(''select'', JObj []), (''bogus'', JBool True)])
        (JObj [(''bogus'', JNum 7)])
      = (Inr (JObj [(''bogus'', JNum 7)]), JObj [(''bogus'', JNum 7)])"
  using unknown_relation_is_noop
    [of "''bogus''" blog "''user''" "JBool True" "(JObj [(''bogus'', JNum 7)], ItemItself)"
        "[(''select'', JObj [])]" "[]" "JObj [(''bogus'', JNum 7)]"]
  by (simp add: blog_def user_relations_def createParser_def parseRelations_def hasSelect_def
       parseEntry_def)

subsection \<open>A relation's own spec: kept as it is, or validated\<close>


lemma parseEntry_kept:
  assumes "fst e = ''select'' \<or> relationHasSelectOrInclude (snd e)"
  shows "parseEntry cfg model e (item, ItemItself) = Inr (item, ItemItself)"
proof (cases "fst e \<noteq> ''select'' \<and> in_op (fst e) item \<and>
    (\<exists>mr rc. relations cfg model = Some mr \<and> mr (fst e) = Some rc \<and> rel_type rc \<noteq> [])")
  case False
  then have "parseEntry cfg model (fst e, snd e) (item, ItemItself) = Inr (item, ItemItself)"
    by (intro parseEntry_skip) (cases "relations cfg model"; cases "the (relations cfg model) (fst e)"; auto)
  then show ?thesis by simp
next
  case True
  then obtain mr rc where r: "fst e \<noteq> ''select''" "in_op (fst e) (fst (item, ItemItself))"
    "relations cfg model = Some mr" "mr (fst e) = Some rc" "rel_type rc \<noteq> []"
    by auto
  from True obtain ps where ps: "item = JObj ps" "has_key (fst e) ps"
    using in_op_JObj by blast
  from r(1) assms have h: "relationHasSelectOrInclude (snd e)" by simp
  have "parseEntry cfg model (fst e, snd e) (item, ItemItself) = Inr (item, ItemItself)"
    unfolding parseEntry_relation [OF r]
    using h ps set_prop_idem [of "fst e" ps] by (auto split: jsval.splits)
  then show ?thesis by simp
qed

lemma parseEntries_kept:
  "\<forall>e \<in> set es. fst e = ''select'' \<or> relationHasSelectOrInclude (snd e) \<Longrightarrow>
     parseEntries cfg model es (item, ItemItself) = (Inr item, item)"
  by (induction es) (simp_all add: parseEntry_kept)

text \<open>
  C2 (amended). For a relation the metadata knows, present in the raw item: when the
  relation's spec is an object carrying \<open>select\<close> or \<open>include\<close>, its turn assigns the
  raw value as it is (a sequence element by element) and calls no schema; the target
  model's schema is called only when the spec carries neither (for instance \<open>true\<close>),
  and then its outcome is thrown or assigned. So with a \<open>select\<close> at the top and
  \<open>select\<close> or \<open>include\<close> under every relation, \<open>parse\<close> and \<open>safeParse\<close> return the raw
  object unvalidated.
\<close>

theorem relation_with_select_or_include_is_kept:
  assumes "key \<noteq> ''select''" and "in_op key (fst st)"
    and "relations cfg model = Some mr" and "mr key = Some rc" and "rel_type rc \<noteq> []"
  shows "(relationHasSelectOrInclude spec \<longrightarrow>
            parseEntry cfg model (key, spec) st = Inr (assign key (get_prop (fst st) key) st))
    \<and> (\<not> relationHasSelectOrInclude spec \<longrightarrow> get_prop (fst st) key \<noteq> JNull \<longrightarrow>
          (\<forall>rels. get_prop (fst st) key \<noteq> JArr rels) \<longrightarrow>
          models cfg (rel_type rc) = Some relationSchema \<longrightarrow>
            parseEntry cfg model (key, spec) st =
              (case relationSchema (get_prop (fst st) key) of
                 Inl e \<Rightarrow> Inl e
               | Inr p \<Rightarrow> Inr (assign key (parsed_value p (get_prop (fst st) key)) st)))
    \<and> (hasSelect q \<longrightarrow>
          (\<forall>e \<in> set q. fst e = ''select'' \<or> relationHasSelectOrInclude (snd e)) \<longrightarrow>
          typeof item = ''object'' \<longrightarrow> item \<noteq> JNull \<longrightarrow>
            parse (builder cfg model q) item = (Inr item, item)
            \<and> safeParse (builder cfg model q) item = (Success item, item))"
proof (intro conjI impI)
  assume "relationHasSelectOrInclude spec"
  then show "parseEntry cfg model (key, spec) st = Inr (assign key (get_prop (fst st) key) st)"
    unfolding parseEntry_relation [OF assms] by (simp split: jsval.splits)
next
  assume "\<not> relationHasSelectOrInclude spec" "get_prop (fst st) key \<noteq> JNull"
    "\<forall>rels. get_prop (fst st) key \<noteq> JArr rels" "models cfg (rel_type rc) = Some relationSchema"
  then show "parseEntry cfg model (key, spec) st =
      (case relationSchema (get_prop (fst st) key) of
         Inl e \<Rightarrow> Inl e
       | Inr p \<Rightarrow> Inr (assign key (parsed_value p (get_prop (fst st) key)) st))"
    unfolding parseEntry_relation [OF assms] by (simp split: jsval.splits)
next
  assume h: "hasSelect q" "\<forall>e \<in> set q. fst e = ''select'' \<or> relationHasSelectOrInclude (snd e)"
    "typeof item = ''object''" "item \<noteq> JNull"
  then show "parse (builder cfg model q) item = (Inr item, item)"
    by (simp add: createParser_def parseRelations_def parseEntries_kept)
  with h show "safeParse (builder cfg model q) item = (Success item, item)"
    by (simp add: try_catch_def)
qed


theorem relation_with_select_or_include_is_kept_witness:
  "''posts'' \<noteq> ''select''
   \<and> in_op ''posts'' (JObj [(''id'', JNum 1), (''posts'', JArr [JObj [(''body'', JStr ''x'')]])])
   \<and> relations blog ''user'' = Some user_relations
   \<and> user_relations ''posts'' = Some (RelationConfig ''post'' True None)
   \<and> relationHasSelectOrInclude (JObj [(''include'', JObj [(''comments'', JBool True)])])
   \<and> parseEntry blog ''user''
         (''posts'', JObj [(''include'', JObj [(''comments'', JBool True)])])
         (JObj [(''id'', JNum 1), (''posts'', JArr [JObj [(''body'', JStr ''x'')]])], ItemItself)
       = Inr (JObj [(''id'', JNum 1), (''posts'', JArr [JObj [(''body'', JStr ''x'')]])], ItemItself)
   \<and> user_relations ''profile'' = Some (RelationConfig ''profile'' False None)
   \<and> \<not> relationHasSelectOrInclude (JBool True)
   \<and> models blog ''profile'' = Some profile_schema
   \<and> parseEntry blog ''user'' (''profile'', JBool True)
         (JObj [(''profile'', JObj [(''bio'', JStr ''b''), (''age'', JNum 3)])], ItemItself)
       = Inr (JObj [(''profile'', JObj [(''bio'', JStr ''b'')])], ItemItself)
   \<and> hasSelect [(''select'', JObj []), (''posts'', JObj [(''select'', JObj [])])]
   \<and> parse (builder blog ''user'' [(''select'', JObj []), (''posts'', JObj [(''select'', JObj [])])])
         (JObj [(''posts'', JNum 5)])
       = (Inr (JObj [(''posts'', JNum 5)]), JObj [(''posts'', JNum 5)])"
  using relation_with_select_or_include_is_kept
    [of "''posts''"
        "(JObj [(''id'', JNum 1), (''posts'', JArr [JObj [(''body'', JStr ''x'')]])], ItemItself)"
        blog "''user''" user_relations "RelationConfig ''post'' True None"
        "JObj [(''include'', JObj [(''comments'', JBool True)])]" post_schema
        "[(''select'', JObj []), (''posts'', JObj [(''select'', JObj [])])]"
        "JObj [(''posts'', JNum 5)]"]
    relation_with_select_or_include_is_kept
    [of "''profile''"
        "(JObj [(''profile'', JObj [(''bio'', JStr ''b''), (''age'', JNum 3)])], ItemItself)"
        blog "''user''" user_relations "RelationConfig ''profile'' False None"
        "JBool True" profile_schema "[]" JNull]
  by (simp add: blog_def user_relations_def relationHasSelectOrInclude_def hasSelect_def
        profile_schema_def)

text \<open>
  C2 as stated fails: \<open>posts\<close> is asked for in the include form, the raw post has no
  \<open>title\<close>, which the \<open>post\<close> schema rejects, and \<open>parse\<close> returns it all the same.
\<close>

theorem relation_include_validated_counterexample:
  "post_schema (JObj [(''body'', JStr ''x'')]) = Inl (SchemaError ''post.title: Required'')
   \<and> parse (builder blog ''user''
          [(''posts'', JObj [(''include'', JObj [(''comments'', JBool True)])])])
        (JObj [(''id'', JNum 1), (''posts'', JArr [JObj [(''body'', JStr ''x'')]])])
     = (Inr (JObj [(''id'', JNum 1), (''posts'', JArr [JObj [(''body'', JStr ''x'')]])]),
        JObj [(''id'', JNum 1), (''posts'', JArr [JObj [(''body'', JStr ''x'')]])])"
  by (simp add: blog_def user_relations_def relationHasSelectOrInclude_def hasSelect_def
        post_schema_def user_schema_def createParser_def parseRelations_def parseEntry_def
        parseRelationElement_def Let_def)

subsection \<open>Sequences: the raw value decides, not the cardinality\<close>









subsection \<open>What a turn of the loop may change\<close>

lemma assign_in_op:
  "in_op key (fst st) \<Longrightarrow> in_op k (fst (assign key v st)) = in_op k (fst st)"
  by (cases st; cases "snd st") (auto dest!: in_op_JObj)

lemma assign_get_prop:
  "k \<noteq> key \<Longrightarrow> get_prop (fst (assign key v st)) k = get_prop (fst st) k"
  by (cases st; cases "snd st"; cases "fst st") auto

lemma assign_result:
  "in_op key (fst st) \<Longrightarrow>
     get_prop (result_value (assign key v st)) k
       = (if k = key then v else get_prop (result_value st) k)"
  by (cases st; cases "snd st") (auto dest!: in_op_JObj)

lemma assign_mode: "(snd (assign key v st) = ItemItself) = (snd st = ItemItself)"
  by (cases st; cases "snd st") auto

lemma assign_Own: "snd st \<noteq> ItemItself \<Longrightarrow> fst (assign key v st) = fst st"
  by (cases st; cases "snd st") auto

lemma assign_idem:
  "in_op key item \<Longrightarrow> assign key (get_prop item key) (item, ItemItself) = (item, ItemItself)"
  by (auto dest!: in_op_JObj simp: set_prop_idem)

lemma parseEntry_frame:
  assumes "parseEntry cfg model e st = Inr st'"
  shows "in_op k (fst st') = in_op k (fst st)"
    and "k \<noteq> fst e \<Longrightarrow> get_prop (fst st') k = get_prop (fst st) k"
    and "k \<noteq> fst e \<Longrightarrow> get_prop (result_value st') k = get_prop (result_value st) k"
    and "(snd st' = ItemItself) = (snd st = ItemItself)"
    and "snd st \<noteq> ItemItself \<Longrightarrow> fst st' = fst st"
  using parseEntry_cases [OF assms]
  by (auto simp: assign_in_op assign_get_prop assign_result assign_mode assign_Own)

lemma parseEntries_frame:
  "in_op k (snd (parseEntries cfg model es st)) = in_op k (fst st)
   \<and> (\<not> has_key k es \<longrightarrow> get_prop (snd (parseEntries cfg model es st)) k = get_prop (fst st) k)"
proof (induction es arbitrary: st)
  case Nil
  show ?case by simp
next
  case (Cons e es)
  show ?case
  proof (cases "parseEntry cfg model e st")
    case (Inl err)
    then show ?thesis by simp
  next
    case (Inr st')
    from parseEntry_frame(1,2) [OF Inr] Cons.IH [of st'] Inr show ?thesis by auto
  qed
qed

lemma parseEntries_Own:
  "snd st \<noteq> ItemItself \<Longrightarrow> snd (parseEntries cfg model es st) = fst st"
proof (induction es arbitrary: st)
  case Nil
  show ?case by simp
next
  case (Cons e es)
  show ?case
  proof (cases "parseEntry cfg model e st")
    case (Inl err)
    then show ?thesis by simp
  next
    case (Inr st')
    from parseEntry_frame(4,5) [OF Inr] Cons.prems Cons.IH [of st'] Inr show ?thesis by auto
  qed
qed

lemma parseEntries_aliased:
  "snd st = ItemItself \<Longrightarrow> parseEntries cfg model es st = (Inr v, after) \<Longrightarrow> v = after"
proof (induction es arbitrary: st)
  case Nil
  then show ?case by (cases st) auto
next
  case (Cons e es)
  show ?case
  proof (cases "parseEntry cfg model e st")
    case (Inl err)
    with Cons.prems show ?thesis by simp
  next
    case (Inr st')
    from parseEntry_frame(4) [OF Inr] Cons.prems Cons.IH [of st'] Inr show ?thesis by auto
  qed
qed

lemma parseEntries_result_frame:
  "\<not> has_key k es \<Longrightarrow> parseEntries cfg model es st = (Inr v, after) \<Longrightarrow>
     get_prop v k = get_prop (result_value st) k"
proof (induction es arbitrary: st)
  case Nil
  then show ?case by auto
next
  case (Cons e es)
  show ?case
  proof (cases "parseEntry cfg model e st")
    case (Inl err)
    with Cons.prems show ?thesis by simp
  next
    case (Inr st')
    from parseEntry_frame(3) [OF Inr, of k] Cons.prems Cons.IH [of st'] Inr show ?thesis by auto
  qed
qed


subsection \<open>The raw input after the call\<close>

lemma snd_try_catch [simp]: "snd (try_catch r) = snd r"
  by (simp add: try_catch_def split: prod.splits sum.splits)

lemma parseRelations_fresh:
  assumes "\<not> hasSelect q"
    and "\<forall>v. case models cfg model of None \<Rightarrow> True | Some s \<Rightarrow> s v \<noteq> Inr SameValue"
  shows "snd (parseRelations cfg model q item) = item"
  using assms
  by (auto simp: parseRelations_def parseEntries_Own dest!: models_at_OwnSchema_D
        split: sum.splits parsed.splits registry_member.splits)

lemma parseItems_fresh:
  assumes "\<And>item. snd (parseRelations cfg model q item) = item"
  shows "snd (parseItems cfg model q xs) = xs"
proof (induction xs)
  case Nil
  show ?case by simp
next
  case (Cons x xs)
  with assms [of x] show ?case by (auto split: prod.splits sum.splits)
qed

lemma createParser_fresh:
  assumes "\<And>item. snd (parseRelations cfg model q item) = item"
  shows "snd (createParser cfg model q isArr data) = data"
proof (cases data)
  case (JArr xs)
  with assms parseItems_fresh [of cfg model q xs, OF assms] show ?thesis
    by (cases "parseItems cfg model q xs") (auto simp: createParser_def split: sum.splits)
qed (simp_all add: createParser_def assms)

lemma parseRelations_frame:
  "in_op k (snd (parseRelations cfg model q item)) = in_op k item
   \<and> (\<not> has_key k q \<longrightarrow> get_prop (snd (parseRelations cfg model q item)) k = get_prop item k)"
  using parseEntries_frame [of k cfg model q]
  by (auto simp: parseRelations_def split: option.splits sum.splits parsed.splits registry_member.splits)

lemma parseRelations_aliased:
  "hasSelect q \<Longrightarrow> parseRelations cfg model q item = (Inr v, after) \<Longrightarrow> v = after"
  using parseEntries_aliased [of "(item, ItemItself)" cfg model q v after]
  by (auto simp: parseRelations_def split: if_splits)

lemma parseItems_elementwise:
  "list_all2 (\<lambda>x y. y = x \<or> y = snd (parseRelations cfg model q x)) xs
     (snd (parseItems cfg model q xs))"
proof (induction xs)
  case Nil
  show ?case by simp
next
  case (Cons x xs)
  have refl: "list_all2 (\<lambda>x y. y = x \<or> y = snd (parseRelations cfg model q x)) xs xs"
    by (simp add: list_all2_same)
  from Cons refl show ?case by (auto split: prod.splits sum.splits)
qed

lemma parseItems_aliased:
  "hasSelect q \<Longrightarrow> parseItems cfg model q xs = (Inr vs, after) \<Longrightarrow> vs = after"
proof (induction xs arbitrary: vs after)
  case Nil
  then show ?case by simp
next
  case (Cons x xs)
  from Cons.prems(2) obtain v x' vs' after' where
    x: "parseRelations cfg model q x = (Inr v, x')"
    and r: "parseItems cfg model q xs = (Inr vs', after')"
    and eq: "vs = v # vs'" "after = x' # after'"
    by (auto split: prod.splits sum.splits)
  from parseRelations_aliased [OF Cons.prems(1) x] Cons.IH [OF Cons.prems(1) r] eq
  show ?case by simp
qed

text \<open>
  C5 (amended). The parser reads the raw input, and writes into it in one case only:
  when \<open>result\<close> is the raw item itself, which is so when the query has a \<open>select\<close>
  (line 298); then the value \<open>parse\<close> returns is the raw item as the call left it, and
  the list \<open>array().parse\<close> returns is the raw list as the call left it. When the
  query has no \<open>select\<close> and the model's schema builds an object of its own, \<open>parse\<close>,
  \<open>safeParse\<close>, \<open>array().parse\<close> and \<open>array().safeParse\<close> leave the raw input
  exactly as it was. For every query: a key of the raw item that is not a key of the
  query keeps its value; in array mode the raw input stays a list of the same length,
  each element of which is afterwards as it was or as \<open>parse\<close> of that element alone
  leaves it, and an input that is no list is left as it was; \<open>safeParse\<close> and
  \<open>array().safeParse\<close> leave the raw input as \<open>parse\<close> and \<open>array().parse\<close> do.
\<close>

theorem raw_input_frame:
  "(\<not> hasSelect q \<longrightarrow>
      (\<forall>v. case models cfg model of None \<Rightarrow> True | Some s \<Rightarrow> s v \<noteq> Inr SameValue) \<longrightarrow>
        snd (parse (builder cfg model q) data) = data
        \<and> snd (safeParse (builder cfg model q) data) = data
        \<and> snd (array_parse (builder cfg model q) data) = data
        \<and> snd (array_safeParse (builder cfg model q) data) = data)
   \<and> (hasSelect q \<longrightarrow> fst (parse (builder cfg model q) data) = Inr v \<longrightarrow>
        snd (parse (builder cfg model q) data) = v)
   \<and> (hasSelect q \<longrightarrow> fst (array_parse (builder cfg model q) data) = Inr v \<longrightarrow>
        snd (array_parse (builder cfg model q) data) = v)
   \<and> (\<not> has_key k q \<longrightarrow>
        get_prop (snd (parse (builder cfg model q) data)) k = get_prop data k)
   \<and> (case snd (array_parse (builder cfg model q) (JArr xs)) of
         JArr ys \<Rightarrow>
           list_all2 (\<lambda>x y. y = x \<or> y = snd (parse (builder cfg model q) x)) xs ys
       | _ \<Rightarrow> False)
   \<and> ((\<forall>xs. data \<noteq> JArr xs) \<longrightarrow> snd (array_parse (builder cfg model q) data) = data)
   \<and> snd (safeParse (builder cfg model q) data) = snd (parse (builder cfg model q) data)
   \<and> snd (array_safeParse (builder cfg model q) data)
       = snd (array_parse (builder cfg model q) data)"
proof (intro conjI impI)
  assume h: "\<not> hasSelect q"
    "\<forall>v. case models cfg model of None \<Rightarrow> True | Some s \<Rightarrow> s v \<noteq> Inr SameValue"
  have "snd (createParser cfg model q isArr data) = data" for isArr
    by (rule createParser_fresh) (rule parseRelations_fresh [OF h])
  then show "snd (parse (builder cfg model q) data) = data"
    "snd (safeParse (builder cfg model q) data) = data"
    "snd (array_parse (builder cfg model q) data) = data"
    "snd (array_safeParse (builder cfg model q) data) = data"
    by simp_all
next
  assume "hasSelect q" "fst (parse (builder cfg model q) data) = Inr v"
  then show "snd (parse (builder cfg model q) data) = v"
    using parseRelations_aliased [of q cfg model data v "snd (parseRelations cfg model q data)"]
    by (simp add: createParser_def prod_eq_iff)
next
  assume h: "hasSelect q" "fst (array_parse (builder cfg model q) data) = Inr v"
  show "snd (array_parse (builder cfg model q) data) = v"
  proof (cases data)
    case (JArr items)
    obtain r after where p: "parseItems cfg model q items = (r, after)"
      by (cases "parseItems cfg model q items")
    with h(2) JArr obtain vs where r: "r = Inr vs" "v = JArr vs"
      by (cases r) (auto simp: createParser_def)
    from parseItems_aliased [OF h(1)] p r have "vs = after" by simp
    with p r JArr show ?thesis by (simp add: createParser_def)
  qed (use h(2) in \<open>simp_all add: createParser_def\<close>)
next
  assume "\<not> has_key k q"
  then show "get_prop (snd (parse (builder cfg model q) data)) k = get_prop data k"
    using parseRelations_frame [of k cfg model q data] by (simp add: createParser_def)
next
  show "case snd (array_parse (builder cfg model q) (JArr xs)) of
         JArr ys \<Rightarrow>
           list_all2 (\<lambda>x y. y = x \<or> y = snd (parse (builder cfg model q) x)) xs ys
       | _ \<Rightarrow> False"
    using parseItems_elementwise [of cfg model q xs]
    by (cases "parseItems cfg model q xs")
       (auto simp: createParser_def split: sum.splits)
next
  assume "\<forall>xs. data \<noteq> JArr xs"
  then show "snd (array_parse (builder cfg model q) data) = data"
    by (cases data) (simp_all add: createParser_def)
qed simp_all

theorem raw_input_frame_witness:
  "\<not> hasSelect [(''profile'', JBool True)]
   \<and> (\<forall>v. case models blog ''user'' of None \<Rightarrow> True | Some s \<Rightarrow> s v \<noteq> Inr SameValue)
   \<and> snd (parse (builder blog ''user'' [(''profile'', JBool True)])
            (JObj [(''id'', JNum 1), (''profile'', JObj [(''bio'', JStr ''hi''), (''age'', JNum 3)])]))
       = JObj [(''id'', JNum 1), (''profile'', JObj [(''bio'', JStr ''hi''), (''age'', JNum 3)])]
   \<and> fst (parse (builder blog ''user'' [(''profile'', JBool True)])
            (JObj [(''id'', JNum 1), (''profile'', JObj [(''bio'', JStr ''hi''), (''age'', JNum 3)])]))
       = Inr (JObj [(''id'', JNum 1), (''profile'', JObj [(''bio'', JStr ''hi'')])])
   \<and> hasSelect [(''select'', JObj []), (''profile'', JBool True)]
   \<and> \<not> has_key ''id'' [(''select'', JObj []), (''profile'', JBool True)]
   \<and> parse (builder blog ''user'' [(''select'', JObj []), (''profile'', JBool True)])
            (JObj [(''id'', JNum 1), (''profile'', JObj [(''bio'', JStr ''hi''), (''age'', JNum 3)])])
       = (Inr (JObj [(''id'', JNum 1), (''profile'', JObj [(''bio'', JStr ''hi'')])]),
          JObj [(''id'', JNum 1), (''profile'', JObj [(''bio'', JStr ''hi'')])])
   \<and> array_parse (builder blog ''user'' [(''select'', JObj []), (''profile'', JBool True)])
            (JArr [JObj [(''id'', JNum 1),
                         (''profile'', JObj [(''bio'', JStr ''hi''), (''age'', JNum 3)])]])
       = (Inr (JArr [JObj [(''id'', JNum 1), (''profile'', JObj [(''bio'', JStr ''hi'')])]]),
          JArr [JObj [(''id'', JNum 1), (''profile'', JObj [(''bio'', JStr ''hi'')])]])
   \<and> (\<forall>xs. JNum 7 \<noteq> JArr xs)
   \<and> array_parse (builder blog ''user'' [(''select'', JObj []), (''profile'', JBool True)])
        (JNum 7) = (Inl TypeError, JNum 7)"
  using raw_input_frame
    [of "[(''profile'', JBool True)]" blog "''user''"
        "JObj [(''id'', JNum 1), (''profile'', JObj [(''bio'', JStr ''hi''), (''age'', JNum 3)])]"
        JNull "''id''" "[]"]
    raw_input_frame
    [of "[(''select'', JObj []), (''profile'', JBool True)]" blog "''user''"
        "JObj [(''id'', JNum 1), (''profile'', JObj [(''bio'', JStr ''hi''), (''age'', JNum 3)])]"
        "JObj [(''id'', JNum 1), (''profile'', JObj [(''bio'', JStr ''hi'')])]" "''id''" "[]"]
    raw_input_frame
    [of "[(''select'', JObj []), (''profile'', JBool True)]" blog "''user''"
        "JArr [JObj [(''id'', JNum 1),
                     (''profile'', JObj [(''bio'', JStr ''hi''), (''age'', JNum 3)])]]"
        "JArr [JObj [(''id'', JNum 1), (''profile'', JObj [(''bio'', JStr ''hi'')])]]"
        "''id''" "[]"]
    raw_input_frame
    [of "[(''select'', JObj []), (''profile'', JBool True)]" blog "''user''" "JNum 7"
        JNull "''id''" "[]"]
  by (simp add: blog_def user_relations_def hasSelect_def user_schema_def profile_schema_def
        createParser_def parseRelations_def parseEntry_def Let_def relationHasSelectOrInclude_def
        split: jsval.splits)

text \<open>
  C5 as stated fails: with a \<open>select\<close> in the query the raw user is \<open>result\<close>, and after
  \<open>parse\<close> its \<open>profile\<close> is the object the \<open>profile\<close> schema built, without \<open>age\<close>.
\<close>

theorem raw_input_unchanged_counterexample:
  "get_prop (snd (parse (builder blog ''user''
                    [(''select'', JObj [(''id'', JBool True)]), (''profile'', JBool True)])
       (JObj [(''id'', JNum 1),
              (''profile'', JObj [(''bio'', JStr ''hi''), (''age'', JNum 3)])]))) ''profile''
     = JObj [(''bio'', JStr ''hi'')]
   \<and> get_prop (JObj [(''id'', JNum 1),
              (''profile'', JObj [(''bio'', JStr ''hi''), (''age'', JNum 3)])]) ''profile''
     = JObj [(''bio'', JStr ''hi''), (''age'', JNum 3)]"
  by (simp add: blog_def user_relations_def hasSelect_def profile_schema_def
        createParser_def parseRelations_def parseEntry_def Let_def relationHasSelectOrInclude_def)

subsection \<open>A null under a relation\<close>

lemma parseEntry_error_indep:
  "parseEntry cfg model e (item, r) = Inl err \<Longrightarrow> parseEntry cfg model e (item, r') = Inl err"
  by (auto simp: parseEntry_def Let_def
        split: if_splits option.splits jsval.splits sum.splits registry_member.splits)

lemma parseEntries_error_indep:
  "(fst (parseEntries cfg model es (item, Own ps)) = Inl err)
     = (fst (parseEntries cfg model es (item, Own ps')) = Inl err)"
proof (induction es arbitrary: ps ps')
  case Nil
  show ?case by simp
next
  case (Cons e es)
  show ?case
  proof (cases "parseEntry cfg model e (item, Own ps)")
    case (Inl x)
    from Inl parseEntry_error_indep [OF Inl, of "Own ps'"] show ?thesis by simp
  next
    case (Inr st2)
    from parseEntry_frame(4,5) [OF Inr] obtain ps2 where st2: "st2 = (item, Own ps2)"
      by (cases st2; cases "snd st2") auto
    show ?thesis
    proof (cases "parseEntry cfg model e (item, Own ps')")
      case (Inl x)
      from parseEntry_error_indep [OF Inl, of "Own ps"] Inr show ?thesis by simp
    next
      case Inr': (Inr st2')
      from parseEntry_frame(4,5) [OF Inr'] obtain ps2' where "st2' = (item, Own ps2')"
        by (cases st2'; cases "snd st2'") auto
      with Inr Inr' st2 Cons.IH [of ps2 ps2'] show ?thesis by simp
    qed
  qed
qed

lemma parseEntry_null:
  assumes "key \<noteq> ''select''" and "in_op key (fst st)" and "relations cfg model = Some mr"
    and "mr key = Some rc" and "rel_type rc \<noteq> []" and "get_prop (fst st) key = JNull"
  shows "parseEntry cfg model (key, spec) st = Inr (assign key JNull st)"
  unfolding parseEntry_relation [OF assms(1-5)] by (simp add: assms(6))

lemma parseEntries_null_result:
  assumes "key \<noteq> ''select''" and "relations cfg model = Some mr"
    and "mr key = Some rc" and "rel_type rc \<noteq> []"
  shows "in_op key (fst st) \<Longrightarrow> get_prop (fst st) key = JNull \<Longrightarrow>
     \<not> has_key key pre \<Longrightarrow> \<not> has_key key post \<Longrightarrow>
     parseEntries cfg model (pre @ (key, spec) # post) st = (Inr v, after) \<Longrightarrow>
     get_prop v key = JNull"
proof (induction pre arbitrary: st)
  case Nil
  have "parseEntry cfg model (key, spec) st = Inr (assign key JNull st)"
    by (rule parseEntry_null [OF assms(1) Nil.prems(1) assms(2,3,4) Nil.prems(2)])
  with Nil.prems have "parseEntries cfg model post (assign key JNull st) = (Inr v, after)"
    by simp
  from parseEntries_result_frame [OF Nil.prems(4) this] Nil.prems(1)
  show ?case by (simp add: assign_result)
next
  case (Cons e pre)
  show ?case
  proof (cases "parseEntry cfg model e st")
    case (Inl err)
    with Cons.prems show ?thesis by simp
  next
    case (Inr st')
    from Cons.prems(3) have ne: "key \<noteq> fst e" by auto
    from parseEntry_frame(1,2) [OF Inr] ne Cons.prems
    have "in_op key (fst st')" "get_prop (fst st') key = JNull" by auto
    moreover from Cons.prems Inr
    have "parseEntries cfg model (pre @ (key, spec) # post) st' = (Inr v, after)" by simp
    ultimately show ?thesis using Cons.IH [of st'] Cons.prems(3,4) by auto
  qed
qed

lemma parseEntries_null_error:
  assumes "key \<noteq> ''select''" and "relations cfg model = Some mr"
    and "mr key = Some rc" and "rel_type rc \<noteq> []"
  shows "in_op key (fst st) \<Longrightarrow> get_prop (fst st) key = JNull \<Longrightarrow> \<not> has_key key pre \<Longrightarrow>
     (fst (parseEntries cfg model (pre @ (key, spec) # post) st) = Inl err)
       = (fst (parseEntries cfg model (pre @ post) st) = Inl err)"
proof (induction pre arbitrary: st)
  case Nil
  have pe: "parseEntry cfg model (key, spec) st = Inr (assign key JNull st)"
    by (rule parseEntry_null [OF assms(1) Nil.prems(1) assms(2,3,4) Nil.prems(2)])
  show ?case
  proof (cases "snd st")
    case ItemItself
    then have "st = (fst st, ItemItself)" by (cases st) simp
    with assign_idem [OF Nil.prems(1)] Nil.prems(2) have "assign key JNull st = st" by simp
    with pe show ?thesis by simp
  next
    case (Own ps)
    then have "st = (fst st, Own ps)" by (cases st) simp
    then have "assign key JNull st = (fst st, Own (set_prop key JNull ps))"
      by (metis assign.simps(2))
    with pe \<open>st = (fst st, Own ps)\<close>
      parseEntries_error_indep [of cfg model post "fst st" "set_prop key JNull ps" err ps]
    show ?thesis by simp
  qed
next
  case (Cons e pre)
  show ?case
  proof (cases "parseEntry cfg model e st")
    case (Inl x)
    then show ?thesis by simp
  next
    case (Inr st')
    from Cons.prems(3) have ne: "key \<noteq> fst e" by auto
    from parseEntry_frame(1,2) [OF Inr] ne Cons.prems
    have "in_op key (fst st')" "get_prop (fst st') key = JNull" by auto
    with Cons.IH [of st'] Cons.prems(3) Inr show ?thesis by auto
  qed
qed


text \<open>
  C9. For a relation the metadata knows (a single-valued optional one in particular)
  whose key holds \<open>null\<close> in the raw item, and whatever the relation's own spec is:
  the relation's turn succeeds and assigns \<open>null\<close>, with any registry of schemas in
  place of the given one (no schema is called); whenever \<open>parse\<close> returns, the value
  has \<open>null\<close> at that key; and \<open>parse\<close> throws an exception exactly when it throws it
  for the query without that relation, so the null relation is never the cause of a
  failure.
\<close>

theorem null_relation_is_assigned:
  assumes "key \<noteq> ''select''" and "relations cfg model = Some mr"
    and "mr key = Some rc" and "rel_type rc \<noteq> []"
    and "in_op key item" and "get_prop item key = JNull"
    and "\<not> has_key key pre" and "\<not> has_key key post"
  shows "parseEntry (cfg\<lparr>models := ms\<rparr>) model (key, spec) (item, r)
           = Inr (assign key JNull (item, r))
    \<and> (fst (parse (builder cfg model (pre @ (key, spec) # post)) item) = Inr v \<longrightarrow>
          get_prop v key = JNull)
    \<and> ((fst (parse (builder cfg model (pre @ (key, spec) # post)) item) = Inl e)
          = (fst (parse (builder cfg model (pre @ post)) item) = Inl e))"
proof (intro conjI impI)
  show "parseEntry (cfg\<lparr>models := ms\<rparr>) model (key, spec) (item, r)
           = Inr (assign key JNull (item, r))"
    using assms by (intro parseEntry_null [where mr = mr and rc = rc]) simp_all
next
  assume "fst (parse (builder cfg model (pre @ (key, spec) # post)) item) = Inr v"
  then obtain after where
    p: "parseRelations cfg model (pre @ (key, spec) # post) item = (Inr v, after)"
    by (cases "parseRelations cfg model (pre @ (key, spec) # post) item")
       (simp add: createParser_def)
  have "parseEntries cfg model (pre @ (key, spec) # post) (item, t) = (Inr v, after) \<Longrightarrow>
          get_prop v key = JNull" for t
    using parseEntries_null_result [OF assms(1-4), of "(item, t)" pre post spec v after]
      assms(5-8) by simp
  with p show "get_prop v key = JNull"
    by (auto simp: parseRelations_def split: if_splits option.splits sum.splits parsed.splits registry_member.splits)
next
  have "(fst (parseEntries cfg model (pre @ (key, spec) # post) (item, t)) = Inl e)
          = (fst (parseEntries cfg model (pre @ post) (item, t)) = Inl e)" for t
    using parseEntries_null_error [OF assms(1-4), of "(item, t)" pre spec post e]
      assms(5-7) by simp
  then show "(fst (parse (builder cfg model (pre @ (key, spec) # post)) item) = Inl e)
          = (fst (parse (builder cfg model (pre @ post)) item) = Inl e)"
    unfolding parse_builder createParser_def parseRelations_def hasSelect_drop [OF assms(1)]
    by (simp split: option.splits sum.splits parsed.splits registry_member.splits)
qed

theorem null_relation_is_assigned_witness:
  "''profile'' \<noteq> ''select''
   \<and> relations blog ''user'' = Some user_relations
   \<and> user_relations ''profile'' = Some (RelationConfig ''profile'' False None)
   \<and> in_op ''profile'' (JObj [(''id'', JNum 1), (''profile'', JNull)])
   \<and> get_prop (JObj [(''id'', JNum 1), (''profile'', JNull)]) ''profile'' = JNull
   \<and> \<not> has_key ''profile'' [(''select'', JObj [(''id'', JBool True)])]
   \<and> parseEntry (blog\<lparr>models := Map.empty\<rparr>) ''user''
        (''profile'', JObj [(''select'', JObj [(''bio'', JBool True)])])
        (JObj [(''id'', JNum 1), (''profile'', JNull)], Own [(''id'', JNum 1)])
       = Inr (JObj [(''id'', JNum 1), (''profile'', JNull)],
              Own [(''id'', JNum 1), (''profile'', JNull)])
   \<and> fst (parse (builder blog ''user''
               [(''select'', JObj [(''id'', JBool True)]),
                (''profile'', JObj [(''select'', JObj [(''bio'', JBool True)])])])
            (JObj [(''id'', JNum 1), (''profile'', JNull)]))
       = Inr (JObj [(''id'', JNum 1), (''profile'', JNull)])
   \<and> get_prop (JObj [(''id'', JNum 1), (''profile'', JNull)]) ''profile'' = JNull"
  using null_relation_is_assigned
    [of "''profile''" blog "''user''" user_relations "RelationConfig ''profile'' False None"
        "JObj [(''id'', JNum 1), (''profile'', JNull)]"
        "[(''select'', JObj [(''id'', JBool True)])]" "[]" Map.empty
        "JObj [(''select'', JObj [(''bio'', JBool True)])]" "Own [(''id'', JNum 1)]"
        "JObj [(''id'', JNum 1), (''profile'', JNull)]" TypeError]
  by (simp add: blog_def user_relations_def hasSelect_def createParser_def parseRelations_def
        parseEntry_def Let_def)

subsection \<open>array().parse stops at the first failing element\<close>

lemma parseItems_append:
  "parseItems cfg model q pre = (Inr vs, pre') \<Longrightarrow>
     parseItems cfg model q (pre @ rest) =
       (case parseItems cfg model q rest of
          (Inl e, rest') \<Rightarrow> (Inl e, pre' @ rest')
        | (Inr ws, rest') \<Rightarrow> (Inr (vs @ ws), pre' @ rest'))"
proof (induction pre arbitrary: vs pre')
  case Nil
  then show ?case by (auto split: prod.splits sum.splits)
next
  case (Cons x pre)
  from Cons.prems obtain v x' vs' pre'' where
    x: "parseRelations cfg model q x = (Inr v, x')"
    and r: "parseItems cfg model q pre = (Inr vs', pre'')"
    and eq: "vs = v # vs'" "pre' = x' # pre''"
    by (auto split: prod.splits sum.splits)
  from Cons.IH [OF r] x eq show ?case by (auto split: prod.splits sum.splits)
qed

lemma parseItems_failing_element:
  "x \<in> set xs \<Longrightarrow> fst (parseRelations cfg model q x) = Inl e \<Longrightarrow>
     \<exists>e'. fst (parseItems cfg model q xs) = Inl e'"
  by (induction xs) (auto split: prod.splits sum.splits)

text \<open>
  C7 (amended). When the elements before element \<open>k\<close> parse and element \<open>k\<close> throws,
  \<open>array().parse\<close> throws that exception, \<open>array().safeParse\<close> reports it, and neither
  returns a list, whatever follows element \<open>k\<close>: the elements after \<open>k\<close> are not looked
  at (the outcome is the one for the sequence cut after \<open>k\<close>) and stay as they were.
  So a sequence with a failing element never parses. The raw elements up to \<open>k\<close> are
  afterwards as their own calls left them: exactly as they were when the query has no
  \<open>select\<close> and the model's schema builds an object of its own.
\<close>

theorem array_parse_short_circuit:
  assumes "parseItems cfg model q pre = (Inr vs, pre')"
    and "parseRelations cfg model q x = (Inl e, x')"
  shows "array_parse (builder cfg model q) (JArr (pre @ x # post))
           = (Inl e, JArr (pre' @ x' # post))
    \<and> array_safeParse (builder cfg model q) (JArr (pre @ x # post))
           = (Failure (boxed e), JArr (pre' @ x' # post))
    \<and> fst (array_parse (builder cfg model q) (JArr (pre @ x # post)))
           = fst (array_parse (builder cfg model q) (JArr (pre @ [x])))
    \<and> (y \<in> set ys \<longrightarrow> fst (parseRelations cfg model q y) = Inl e2 \<longrightarrow>
          (\<exists>e'. fst (array_parse (builder cfg model q) (JArr ys)) = Inl e'))
    \<and> (\<not> hasSelect q \<longrightarrow>
          (\<forall>v. case models cfg model of None \<Rightarrow> True | Some s \<Rightarrow> s v \<noteq> Inr SameValue) \<longrightarrow>
            pre' = pre \<and> x' = x)"
proof -
  have "parseItems cfg model q (pre @ x # rest) = (Inl e, pre' @ x' # rest)" for rest
    unfolding parseItems_append [OF assms(1)] by (simp add: assms(2))
  moreover have "y \<in> set ys \<Longrightarrow> fst (parseRelations cfg model q y) = Inl e2 \<Longrightarrow>
          \<exists>e'. fst (createParser cfg model q True (JArr ys)) = Inl e'"
    using parseItems_failing_element [of y ys cfg model q e2]
    by (auto simp: createParser_def split: prod.splits sum.splits)
  moreover have "pre' = pre \<and> x' = x"
    if h: "\<not> hasSelect q"
      "\<forall>v. case models cfg model of None \<Rightarrow> True | Some s \<Rightarrow> s v \<noteq> Inr SameValue"
  proof -
    have f: "snd (parseRelations cfg model q item) = item" for item
      by (rule parseRelations_fresh [OF h])
    from parseItems_fresh [of cfg model q pre, OF f] assms(1) f [of x] assms(2)
    show ?thesis by simp
  qed
  ultimately show ?thesis by (simp add: createParser_def try_catch_def)
qed

theorem array_parse_short_circuit_witness:
  "parseItems blog ''user'' [(''select'', JObj []), (''profile'', JBool True)]
       [JObj [(''profile'', JObj [(''bio'', JStr ''hi''), (''age'', JNum 3)])]]
     = (Inr [JObj [(''profile'', JObj [(''bio'', JStr ''hi'')])]],
        [JObj [(''profile'', JObj [(''bio'', JStr ''hi'')])]])
   \<and> parseRelations blog ''user'' [(''select'', JObj []), (''profile'', JBool True)]
       (JObj [(''profile'', JObj [(''age'', JNum 4)])])
     = (Inl (SchemaError ''profile.bio: Required''), JObj [(''profile'', JObj [(''age'', JNum 4)])])
   \<and> array_parse (builder blog ''user'' [(''select'', JObj []), (''profile'', JBool True)])
        (JArr [JObj [(''profile'', JObj [(''bio'', JStr ''hi''), (''age'', JNum 3)])],
               JObj [(''profile'', JObj [(''age'', JNum 4)])],
               JObj [(''profile'', JObj [(''bio'', JStr ''b''), (''age'', JNum 5)])], JNull])
     = (Inl (SchemaError ''profile.bio: Required''),
        JArr [JObj [(''profile'', JObj [(''bio'', JStr ''hi'')])],
              JObj [(''profile'', JObj [(''age'', JNum 4)])],
              JObj [(''profile'', JObj [(''bio'', JStr ''b''), (''age'', JNum 5)])], JNull])
   \<and> JNull \<in> set [JNull]
   \<and> fst (parseRelations blog ''user'' [] JNull) = Inl (InvalidData ''user'' ''null'')
   \<and> \<not> hasSelect []
   \<and> (\<forall>v. case models blog ''user'' of None \<Rightarrow> True | Some s \<Rightarrow> s v \<noteq> Inr SameValue)
   \<and> parseItems blog ''user'' [] [JObj [(''id'', JNum 1), (''n'', JNum 2)]]
     = (Inr [JObj [(''id'', JNum 1)]], [JObj [(''id'', JNum 1), (''n'', JNum 2)]])
   \<and> parseRelations blog ''user'' [] (JObj [(''name'', JStr ''n'')])
     = (Inl (SchemaError ''user.id: Required''), JObj [(''name'', JStr ''n'')])
   \<and> array_parse (builder blog ''user'' [])
        (JArr [JObj [(''id'', JNum 1), (''n'', JNum 2)], JObj [(''name'', JStr ''n'')], JNull])
     = (Inl (SchemaError ''user.id: Required''),
        JArr [JObj [(''id'', JNum 1), (''n'', JNum 2)], JObj [(''name'', JStr ''n'')], JNull])"
  using array_parse_short_circuit
    [of blog "''user''" "[(''select'', JObj []), (''profile'', JBool True)]"
        "[JObj [(''profile'', JObj [(''bio'', JStr ''hi''), (''age'', JNum 3)])]]"
        "[JObj [(''profile'', JObj [(''bio'', JStr ''hi'')])]]"
        "[JObj [(''profile'', JObj [(''bio'', JStr ''hi'')])]]"
        "JObj [(''profile'', JObj [(''age'', JNum 4)])]"
        "SchemaError ''profile.bio: Required''"
        "JObj [(''profile'', JObj [(''age'', JNum 4)])]"
        "[JObj [(''profile'', JObj [(''bio'', JStr ''b''), (''age'', JNum 5)])], JNull]"
        JNull "[JNull]" "InvalidData ''user'' ''null''"]
    array_parse_short_circuit
    [of blog "''user''" "[]" "[JObj [(''id'', JNum 1), (''n'', JNum 2)]]"
        "[JObj [(''id'', JNum 1)]]" "[JObj [(''id'', JNum 1), (''n'', JNum 2)]]"
        "JObj [(''name'', JStr ''n'')]" "SchemaError ''user.id: Required''"
        "JObj [(''name'', JStr ''n'')]" "[JNull]" JNull "[JNull]"
        "InvalidData ''user'' ''null''"]
  by (simp add: blog_def user_relations_def user_schema_def profile_schema_def hasSelect_def
        parseRelations_def parseEntry_def Let_def relationHasSelectOrInclude_def
        split: jsval.splits)

text \<open>
  C7 as stated fails in its last part: under a \<open>select\<close> the first user has been
  rewritten in place (its \<open>profile\<close> has lost \<open>age\<close>) when the second user makes
  \<open>array().parse\<close> throw, and the caller's list shows it.
\<close>

theorem array_parse_partial_results_counterexample:
  "array_parse (builder blog ''user'' [(''select'', JObj []), (''profile'', JBool True)])
        (JArr [JObj [(''profile'', JObj [(''bio'', JStr ''hi''), (''age'', JNum 3)])],
               JObj [(''profile'', JObj [(''age'', JNum 4)])]])
     = (Inl (SchemaError ''profile.bio: Required''),
        JArr [JObj [(''profile'', JObj [(''bio'', JStr ''hi'')])],
              JObj [(''profile'', JObj [(''age'', JNum 4)])]])
   \<and> JArr [JObj [(''profile'', JObj [(''bio'', JStr ''hi'')])],
              JObj [(''profile'', JObj [(''age'', JNum 4)])]]
     \<noteq> JArr [JObj [(''profile'', JObj [(''bio'', JStr ''hi''), (''age'', JNum 3)])],
               JObj [(''profile'', JObj [(''age'', JNum 4)])]]"
  by (simp add: blog_def user_relations_def profile_schema_def hasSelect_def createParser_def
        parseRelations_def parseEntry_def Let_def relationHasSelectOrInclude_def)

end
